theory Spec2Isabelle
  imports Complex_Main "HOL-Library.Multiset"
begin

section \<open>Numbers and optional values\<close>

text \<open>
  The calculator (\<open>ROICalculator\<close>, a class of static functions) works on JavaScript
  numbers. A finite number is modelled as a \<^typ>\<open>real\<close>, and \<open>+\<close>, \<open>-\<close>, \<open>*\<close> and the
  division by the literal \<open>100\<close> are the exact operations: the rounding of each result to a
  double is left out here and is the subject of the section on rounded arithmetic below.
  Signed zeros and \<open>NaN\<close> inputs are not represented.

  A division whose divisor is a computed value can leave the finite numbers
  (\<open>x / 0\<close> is \<open>Infinity\<close>, \<open>-Infinity\<close> or \<open>NaN\<close>), and the source writes \<open>Infinity\<close>
  itself, so the result of such a division is a \<open>jsnum\<close>.
\<close>

datatype jsnum = Fin real | PosInf | NegInf | NaN

definition js_div :: "real \<Rightarrow> real \<Rightarrow> jsnum" where
  "js_div a b =
     (if b \<noteq> 0 then Fin (a / b)
      else if 0 < a then PosInf
      else if a < 0 then NegInf
      else NaN)"

fun js_times :: "jsnum \<Rightarrow> real \<Rightarrow> jsnum" where
  "js_times (Fin a) c = Fin (a * c)"
| "js_times PosInf c = (if 0 < c then PosInf else if c < 0 then NegInf else NaN)"
| "js_times NegInf c = (if 0 < c then NegInf else if c < 0 then PosInf else NaN)"
| "js_times NaN c = NaN"

text \<open>
  An optional field or argument (\<open>x?: number\<close>) is an \<open>option\<close>; \<open>None\<close> is \<open>undefined\<close>.
  \<open>truthy\<close> is JavaScript's truthiness of such a value: \<open>undefined\<close> and \<open>0\<close> are falsy.
  \<open>or_zero x\<close> is \<open>x || 0\<close>, \<open>default_arg d x\<close> is a parameter declared \<open>x = d\<close>, and
  \<open>opt_chain m f\<close> is \<open>m?.f\<close>.
\<close>

definition truthy :: "real option \<Rightarrow> bool" where
  "truthy x = (case x of None \<Rightarrow> False | Some v \<Rightarrow> v \<noteq> 0)"

definition or_zero :: "real option \<Rightarrow> real" where
  "or_zero x = (if truthy x then the x else 0)"

definition default_arg :: "'a \<Rightarrow> 'a option \<Rightarrow> 'a" where
  "default_arg d x = (case x of None \<Rightarrow> d | Some v \<Rightarrow> v)"

definition opt_chain :: "'a option \<Rightarrow> ('a \<Rightarrow> 'b option) \<Rightarrow> 'b option" where
  "opt_chain m f = (case m of None \<Rightarrow> None | Some r \<Rightarrow> f r)"

section \<open>Data model (types/index.ts)\<close>

record WorkflowTask =
  name :: string
  hoursPerRun :: real
  aiCoveragePct :: real
  efficiencyGainPct :: real

datatype BillingModel = per_user | per_account

record RecommendedTool =
  name :: string
  billingModel :: BillingModel
  licensePerUser :: "real option"
  accountCostPerMonth :: "real option"

record RevenueModel =
  revenuePerAsset :: "real option"
  expectedIncrementalConversionLiftPct :: "real option"

record ROICalculation =
  totalHoursCurrent :: real
  totalHoursFuture :: real
  costCurrent :: real
  costFuture :: real
  monthlySavings :: real
  aiRecurringCostPerMonth :: real
  trainingCostOneTime :: real
  revenueLiftPerRun :: real
  monthlyNetBenefit :: real
  roiPercentage :: jsnum
  paybackMonths :: jsnum
  pilot3MonthSavings :: real
  riskAdjustedSavings :: real
  throughputMultiplier :: jsnum
  additionalMonthlyCost :: real
  monthlyUplift :: real
  classification :: string
  showNetBenefitTooltip :: bool

datatype ScenarioName = Base | Conservative | Aggressive

record Scenario =
  name :: ScenarioName
  multiplier :: real
  calculation :: ROICalculation

text \<open>The anonymous result objects of the helpers.\<close>

record TotalHours =
  current :: real
  future :: real

record LaborCosts =
  current :: real
  future :: real
  savings :: real

record TechCosts =
  recurringPerMonth :: real
  oneTime :: real

section \<open>ROICalculator\<close>

definition calculateEffectiveEfficiency :: "real \<Rightarrow> real \<Rightarrow> real" where
  "calculateEffectiveEfficiency coveragePct gainPct = (coveragePct * gainPct) / 100"

definition calculateHoursSavedPerRun :: "real \<Rightarrow> real \<Rightarrow> real" where
  "calculateHoursSavedPerRun hours effectiveEfficiencyPct =
     hours * (effectiveEfficiencyPct / 100)"

definition calculateFutureHoursPerRun :: "real \<Rightarrow> real \<Rightarrow> real" where
  "calculateFutureHoursPerRun hours hoursSavedPerRun = hours - hoursSavedPerRun"

text \<open>
  \<open>calculateTotalHours\<close>: the \<open>forEach\<close> over the tasks updates the two running totals,
  left to right, starting from \<open>0\<close>.
\<close>

definition calculateTotalHours :: "WorkflowTask list \<Rightarrow> TotalHours" where
  "calculateTotalHours tasks =
     foldl (\<lambda>acc task.
        let effectiveEfficiency =
              calculateEffectiveEfficiency (aiCoveragePct task) (efficiencyGainPct task);
            hoursSaved = calculateHoursSavedPerRun (hoursPerRun task) effectiveEfficiency;
            futureHours = calculateFutureHoursPerRun (hoursPerRun task) hoursSaved
        in \<lparr>TotalHours.current = TotalHours.current acc + hoursPerRun task,
            TotalHours.future = TotalHours.future acc + futureHours\<rparr>)
       \<lparr>TotalHours.current = 0, TotalHours.future = 0\<rparr> tasks"

definition calculateLaborCosts :: "real \<Rightarrow> real \<Rightarrow> real \<Rightarrow> LaborCosts" where
  "calculateLaborCosts hoursCurrent hoursFuture averageHourlyCost =
     (let cCurrent = hoursCurrent * averageHourlyCost;
          cFuture = hoursFuture * averageHourlyCost;
          sav = cCurrent - cFuture
      in \<lparr>LaborCosts.current = cCurrent, LaborCosts.future = cFuture, savings = sav\<rparr>)"

definition calculateTechCosts ::
  "RecommendedTool list \<Rightarrow> real \<Rightarrow> real option \<Rightarrow> TechCosts" where
  "calculateTechCosts recommendedTools teamSize trainingCost =
     (let recurring =
            foldl (\<lambda>sum tool.
               if billingModel tool = per_account
               then sum + or_zero (accountCostPerMonth tool)
               else sum + or_zero (licensePerUser tool) * teamSize)
              0 recommendedTools
      in \<lparr>recurringPerMonth = recurring, oneTime = default_arg 5000 trainingCost\<rparr>)"

definition calculateRevenueImpact :: "RevenueModel option \<Rightarrow> real option \<Rightarrow> real option" where
  "calculateRevenueImpact revenueModel runsPerMonth =
     (if \<not> truthy (opt_chain revenueModel revenuePerAsset)
         \<or> \<not> truthy (opt_chain revenueModel expectedIncrementalConversionLiftPct)
      then None
      else
        let revenueLiftPerAsset =
              the (opt_chain revenueModel revenuePerAsset) *
              (the (opt_chain revenueModel expectedIncrementalConversionLiftPct) / 100)
        in Some (revenueLiftPerAsset * default_arg 10 runsPerMonth))"

definition calculateROI ::
  "WorkflowTask list \<Rightarrow> RecommendedTool list \<Rightarrow> real \<Rightarrow> real \<Rightarrow> RevenueModel option \<Rightarrow>
   real option \<Rightarrow> real option \<Rightarrow> real option \<Rightarrow> ROICalculation" where
  "calculateROI tasks recommendedTools teamSize averageHourlyCost revenueModel
      trainingCostArg runsPerMonthArg scenarioMultiplierArg =
     (let trainingCost = default_arg 5000 trainingCostArg;
          runsPerMonth = default_arg 10 runsPerMonthArg;
          scenarioMultiplier = default_arg 1 scenarioMultiplierArg;
          horizonMonths = 12;
          pilotMonths = 3;
          riskFactor = 7 / 10;
          adjustedTasks =
            map (\<lambda>task. task\<lparr>efficiencyGainPct :=
                   min 100 (max 0 (efficiencyGainPct task * scenarioMultiplier))\<rparr>) tasks;
          totalHours = calculateTotalHours adjustedTasks;
          totalHoursCurrentPerRun = TotalHours.current totalHours;
          totalHoursFuturePerRun = TotalHours.future totalHours;
          safeRunsPerMonth = max runsPerMonth 0;
          totalHoursCurrent = totalHoursCurrentPerRun * safeRunsPerMonth;
          totalHoursFuture = totalHoursFuturePerRun * safeRunsPerMonth;
          labor = calculateLaborCosts totalHoursCurrent totalHoursFuture averageHourlyCost;
          costCurrent = LaborCosts.current labor;
          costFuture = LaborCosts.future labor;
          rawSavings = savings labor;
          rawLaborSavings = rawSavings;
          monthlySavings = max rawLaborSavings 0;
          tech = calculateTechCosts recommendedTools teamSize (Some trainingCost);
          aiRecurringCostPerMonth = recurringPerMonth tech;
          calculatedTrainingCost = oneTime tech;
          revenueLiftPerMonth =
            or_zero (calculateRevenueImpact revenueModel (Some safeRunsPerMonth));
          grossBenefitPerMonth = monthlySavings + revenueLiftPerMonth;
          monthlyNetBenefit = grossBenefitPerMonth - aiRecurringCostPerMonth;
          paybackMonths =
            (if monthlyNetBenefit > 0
             then js_div calculatedTrainingCost monthlyNetBenefit
             else PosInf);
          totalNetBenefitOverHorizon =
            monthlyNetBenefit * horizonMonths - calculatedTrainingCost;
          totalInvestmentOverHorizon =
            calculatedTrainingCost + aiRecurringCostPerMonth * horizonMonths;
          roiPercentage =
            (if totalInvestmentOverHorizon > 0
             then js_times (js_div totalNetBenefitOverHorizon totalInvestmentOverHorizon) 100
             else Fin 0);
          pilotGrossBenefit = grossBenefitPerMonth * pilotMonths;
          pilotAIRecurringCost = aiRecurringCostPerMonth * pilotMonths;
          pilotTotalCost = calculatedTrainingCost + pilotAIRecurringCost;
          pilotNetValue = pilotGrossBenefit - pilotTotalCost;
          riskAdjustedSavings = pilotNetValue * riskFactor;
          revenueLiftPerRun = revenueLiftPerMonth;
          throughputMultiplier =
            (if totalHoursFuture > 0 then js_div totalHoursCurrent totalHoursFuture else Fin 1);
          additionalMonthlyCost = max (aiRecurringCostPerMonth - monthlySavings) 0;
          monthlyUplift = revenueLiftPerMonth;
          classified =
            (if additionalMonthlyCost > 0 \<and> monthlyUplift > additionalMonthlyCost
             then (''AI Performance Investment'', True)
             else if monthlySavings > aiRecurringCostPerMonth
             then (''Cost Savings Initiative'', False)
             else (''Neutral'', False))
      in \<lparr>totalHoursCurrent = totalHoursCurrent,
          totalHoursFuture = totalHoursFuture,
          costCurrent = costCurrent,
          costFuture = costFuture,
          monthlySavings = monthlySavings,
          aiRecurringCostPerMonth = aiRecurringCostPerMonth,
          trainingCostOneTime = calculatedTrainingCost,
          revenueLiftPerRun = revenueLiftPerRun,
          monthlyNetBenefit = monthlyNetBenefit,
          roiPercentage = roiPercentage,
          paybackMonths = paybackMonths,
          pilot3MonthSavings = pilotNetValue,
          riskAdjustedSavings = riskAdjustedSavings,
          throughputMultiplier = throughputMultiplier,
          additionalMonthlyCost = additionalMonthlyCost,
          monthlyUplift = monthlyUplift,
          classification = fst classified,
          showNetBenefitTooltip = snd classified\<rparr>)"


section \<open>Auxiliary notions for the results\<close>

text \<open>
  The task list that \<open>calculateROI\<close> hands to \<open>calculateTotalHours\<close> (the \<open>tasks.map\<close> of
  its first step), and the future hours that the body of the \<open>forEach\<close> computes for one task.
\<close>

definition adjustedTasks :: "real \<Rightarrow> WorkflowTask list \<Rightarrow> WorkflowTask list" where
  "adjustedTasks scenarioMultiplier tasks =
     map (\<lambda>task. task\<lparr>efficiencyGainPct :=
            min 100 (max 0 (efficiencyGainPct task * scenarioMultiplier))\<rparr>) tasks"




text \<open>Inputs of the worked examples: one task, one account-billed tool, one revenue model.\<close>

definition exampleTask :: WorkflowTask where
  "exampleTask =
     \<lparr>WorkflowTask.name = ''example'', hoursPerRun = 10, aiCoveragePct = 50,
      efficiencyGainPct = 40\<rparr>"

definition exampleTool :: RecommendedTool where
  "exampleTool =
     \<lparr>RecommendedTool.name = ''tool'', billingModel = per_account, licensePerUser = None,
      accountCostPerMonth = Some 2000\<rparr>"

definition exampleRevenueModel :: RevenueModel where
  "exampleRevenueModel =
     \<lparr>revenuePerAsset = Some 1000, expectedIncrementalConversionLiftPct = Some 10\<rparr>"

text \<open>A task that is only hours: nothing of it is automated.\<close>

definition hoursOnlyTask :: "real \<Rightarrow> WorkflowTask" where
  "hoursOnlyTask hours =
     \<lparr>WorkflowTask.name = ''task'', hoursPerRun = hours, aiCoveragePct = 0,
      efficiencyGainPct = 0\<rparr>"

section \<open>Rounded arithmetic\<close>

text \<open>
  A JavaScript number is an IEEE-754 binary64 value, and every arithmetic operation returns
  the exact result rounded to the nearest such value, ties to the even significand.
  \<open>binary64 x\<close> is that rounding of a real \<open>x\<close>: \<open>normalise\<close> scales \<open>\<bar>x\<bar>\<close> by powers of two
  into \<open>[2^52, 2^53)\<close>, where the doubles are the integers, \<open>round_half_even\<close> rounds there, and
  the result is scaled back. The exponent range is not bounded: overflow to \<open>Infinity\<close> and
  the subnormal numbers are not represented, so \<open>binary64\<close> is the rounding of JavaScript for
  results in the normal range (magnitudes between \<open>2^-1022\<close> and \<open>2^1024\<close>), which the
  search bound of \<open>normalise\<close> covers.

  The \<open>_rounded\<close> functions are the aggregator and the three per-task functions with the
  rounding \<open>rnd\<close> applied after every operation; with the identity for \<open>rnd\<close> they are the
  functions above.
\<close>

fun normalise :: "nat \<Rightarrow> real \<Rightarrow> int \<Rightarrow> real \<times> int" where
  "normalise 0 m e = (m, e)"
| "normalise (Suc k) m e =
     (if m < 2 ^ 52 then normalise k (m * 2) (e - 1)
      else if 2 ^ 53 \<le> m then normalise k (m / 2) (e + 1)
      else (m, e))"

definition round_half_even :: "real \<Rightarrow> int" where
  "round_half_even m =
     (let n = \<lfloor>m\<rfloor>; d = m - of_int n
      in if d < 1 / 2 then n
         else if 1 / 2 < d then n + 1
         else if even n then n else n + 1)"

definition binary64 :: "real \<Rightarrow> real" where
  "binary64 x =
     (if x = 0 then 0
      else
        (case normalise 2200 \<bar>x\<bar> 0 of
           (m, e) \<Rightarrow>
             let r = of_int (round_half_even m)
                     * (if 0 \<le> e then 2 ^ nat e else 1 / 2 ^ nat (- e))
             in if x < 0 then - r else r))"

definition calculateEffectiveEfficiency_rounded ::
  "(real \<Rightarrow> real) \<Rightarrow> real \<Rightarrow> real \<Rightarrow> real" where
  "calculateEffectiveEfficiency_rounded rnd coveragePct gainPct =
     rnd (rnd (coveragePct * gainPct) / 100)"

definition calculateHoursSavedPerRun_rounded ::
  "(real \<Rightarrow> real) \<Rightarrow> real \<Rightarrow> real \<Rightarrow> real" where
  "calculateHoursSavedPerRun_rounded rnd hours effectiveEfficiencyPct =
     rnd (hours * rnd (effectiveEfficiencyPct / 100))"

definition calculateFutureHoursPerRun_rounded ::
  "(real \<Rightarrow> real) \<Rightarrow> real \<Rightarrow> real \<Rightarrow> real" where
  "calculateFutureHoursPerRun_rounded rnd hours hoursSavedPerRun =
     rnd (hours - hoursSavedPerRun)"

definition calculateTotalHours_rounded ::
  "(real \<Rightarrow> real) \<Rightarrow> WorkflowTask list \<Rightarrow> TotalHours" where
  "calculateTotalHours_rounded rnd tasks =
     foldl (\<lambda>acc task.
        let effectiveEfficiency =
              calculateEffectiveEfficiency_rounded rnd (aiCoveragePct task)
                (efficiencyGainPct task);
            hoursSaved =
              calculateHoursSavedPerRun_rounded rnd (hoursPerRun task) effectiveEfficiency;
            futureHours =
              calculateFutureHoursPerRun_rounded rnd (hoursPerRun task) hoursSaved
        in \<lparr>TotalHours.current = rnd (TotalHours.current acc + hoursPerRun task),
            TotalHours.future = rnd (TotalHours.future acc + futureHours)\<rparr>)
       \<lparr>TotalHours.current = 0, TotalHours.future = 0\<rparr> tasks"

section \<open>The fields of the result of \<open>calculateROI\<close>\<close>

text \<open>
  Each field of the returned record, read off the definition and expressed through the
  fields computed before it.
\<close>

lemmas roi_unfold =
  calculateROI_def Let_def ROICalculation.select_convs
  calculateLaborCosts_def LaborCosts.select_convs
  calculateTechCosts_def TechCosts.select_convs
  adjustedTasks_def fst_conv snd_conv

lemma default_arg_Some: "default_arg d (Some v) = v"
  by (simp add: default_arg_def)

lemma roi_totalHoursCurrent:
  "totalHoursCurrent (calculateROI tasks tools ts c rm tcA rpmA smA) =
     TotalHours.current (calculateTotalHours (adjustedTasks (default_arg 1 smA) tasks))
       * max (default_arg 10 rpmA) 0"
  by (simp only: roi_unfold)

lemma roi_totalHoursFuture:
  "totalHoursFuture (calculateROI tasks tools ts c rm tcA rpmA smA) =
     TotalHours.future (calculateTotalHours (adjustedTasks (default_arg 1 smA) tasks))
       * max (default_arg 10 rpmA) 0"
  by (simp only: roi_unfold)

lemma roi_costCurrent:
  "costCurrent (calculateROI tasks tools ts c rm tcA rpmA smA) =
     totalHoursCurrent (calculateROI tasks tools ts c rm tcA rpmA smA) * c"
  by (simp only: roi_unfold)

lemma roi_costFuture:
  "costFuture (calculateROI tasks tools ts c rm tcA rpmA smA) =
     totalHoursFuture (calculateROI tasks tools ts c rm tcA rpmA smA) * c"
  by (simp only: roi_unfold)

lemma roi_monthlySavings:
  "monthlySavings (calculateROI tasks tools ts c rm tcA rpmA smA) =
     max (costCurrent (calculateROI tasks tools ts c rm tcA rpmA smA)
          - costFuture (calculateROI tasks tools ts c rm tcA rpmA smA)) 0"
  by (simp only: roi_unfold)

lemma roi_aiRecurring:
  "aiRecurringCostPerMonth (calculateROI tasks tools ts c rm tcA rpmA smA) =
     recurringPerMonth (calculateTechCosts tools ts (Some (default_arg 5000 tcA)))"
  by (simp only: roi_unfold)

lemma roi_trainingCost:
  "trainingCostOneTime (calculateROI tasks tools ts c rm tcA rpmA smA) = default_arg 5000 tcA"
  by (simp only: roi_unfold default_arg_Some)

lemma roi_monthlyUplift:
  "monthlyUplift (calculateROI tasks tools ts c rm tcA rpmA smA) =
     or_zero (calculateRevenueImpact rm (Some (max (default_arg 10 rpmA) 0)))"
  by (simp only: roi_unfold)

lemma roi_revenueLiftPerRun:
  "revenueLiftPerRun (calculateROI tasks tools ts c rm tcA rpmA smA) =
     monthlyUplift (calculateROI tasks tools ts c rm tcA rpmA smA)"
  by (simp only: roi_unfold)

lemma roi_monthlyNetBenefit:
  "monthlyNetBenefit (calculateROI tasks tools ts c rm tcA rpmA smA) =
     monthlySavings (calculateROI tasks tools ts c rm tcA rpmA smA)
     + monthlyUplift (calculateROI tasks tools ts c rm tcA rpmA smA)
     - aiRecurringCostPerMonth (calculateROI tasks tools ts c rm tcA rpmA smA)"
  by (simp only: roi_unfold)

lemma roi_paybackMonths:
  "paybackMonths (calculateROI tasks tools ts c rm tcA rpmA smA) =
     (if monthlyNetBenefit (calculateROI tasks tools ts c rm tcA rpmA smA) > 0
      then js_div (trainingCostOneTime (calculateROI tasks tools ts c rm tcA rpmA smA))
                  (monthlyNetBenefit (calculateROI tasks tools ts c rm tcA rpmA smA))
      else PosInf)"
  by (simp only: roi_unfold)

lemma roi_roiPercentage:
  "roiPercentage (calculateROI tasks tools ts c rm tcA rpmA smA) =
     (if trainingCostOneTime (calculateROI tasks tools ts c rm tcA rpmA smA)
         + aiRecurringCostPerMonth (calculateROI tasks tools ts c rm tcA rpmA smA) * 12 > 0
      then js_times
             (js_div (monthlyNetBenefit (calculateROI tasks tools ts c rm tcA rpmA smA) * 12
                      - trainingCostOneTime (calculateROI tasks tools ts c rm tcA rpmA smA))
                     (trainingCostOneTime (calculateROI tasks tools ts c rm tcA rpmA smA)
                      + aiRecurringCostPerMonth (calculateROI tasks tools ts c rm tcA rpmA smA) * 12))
             100
      else Fin 0)"
  by (simp only: roi_unfold)

lemma roi_throughputMultiplier:
  "throughputMultiplier (calculateROI tasks tools ts c rm tcA rpmA smA) =
     (if totalHoursFuture (calculateROI tasks tools ts c rm tcA rpmA smA) > 0
      then js_div (totalHoursCurrent (calculateROI tasks tools ts c rm tcA rpmA smA))
                  (totalHoursFuture (calculateROI tasks tools ts c rm tcA rpmA smA))
      else Fin 1)"
  by (simp only: roi_unfold)

lemma roi_additionalMonthlyCost:
  "additionalMonthlyCost (calculateROI tasks tools ts c rm tcA rpmA smA) =
     max (aiRecurringCostPerMonth (calculateROI tasks tools ts c rm tcA rpmA smA)
          - monthlySavings (calculateROI tasks tools ts c rm tcA rpmA smA)) 0"
  by (simp only: roi_unfold)

lemma roi_pilot3MonthSavings:
  "pilot3MonthSavings (calculateROI tasks tools ts c rm tcA rpmA smA) =
     (monthlySavings (calculateROI tasks tools ts c rm tcA rpmA smA)
      + monthlyUplift (calculateROI tasks tools ts c rm tcA rpmA smA)) * 3
     - (trainingCostOneTime (calculateROI tasks tools ts c rm tcA rpmA smA)
        + aiRecurringCostPerMonth (calculateROI tasks tools ts c rm tcA rpmA smA) * 3)"
  by (simp only: roi_unfold)

lemma roi_riskAdjustedSavings:
  "riskAdjustedSavings (calculateROI tasks tools ts c rm tcA rpmA smA) =
     pilot3MonthSavings (calculateROI tasks tools ts c rm tcA rpmA smA) * (7 / 10)"
  by (simp only: roi_unfold)

lemma roi_classified:
  "(classification (calculateROI tasks tools ts c rm tcA rpmA smA),
    showNetBenefitTooltip (calculateROI tasks tools ts c rm tcA rpmA smA)) =
     (if additionalMonthlyCost (calculateROI tasks tools ts c rm tcA rpmA smA) > 0
         \<and> monthlyUplift (calculateROI tasks tools ts c rm tcA rpmA smA)
             > additionalMonthlyCost (calculateROI tasks tools ts c rm tcA rpmA smA)
      then (''AI Performance Investment'', True)
      else if monthlySavings (calculateROI tasks tools ts c rm tcA rpmA smA)
              > aiRecurringCostPerMonth (calculateROI tasks tools ts c rm tcA rpmA smA)
      then (''Cost Savings Initiative'', False)
      else (''Neutral'', False))"
  by (simp only: roi_unfold prod.collapse)

lemma roi_classification:
  "classification (calculateROI tasks tools ts c rm tcA rpmA smA) =
     (if additionalMonthlyCost (calculateROI tasks tools ts c rm tcA rpmA smA) > 0
         \<and> monthlyUplift (calculateROI tasks tools ts c rm tcA rpmA smA)
             > additionalMonthlyCost (calculateROI tasks tools ts c rm tcA rpmA smA)
      then ''AI Performance Investment''
      else if monthlySavings (calculateROI tasks tools ts c rm tcA rpmA smA)
              > aiRecurringCostPerMonth (calculateROI tasks tools ts c rm tcA rpmA smA)
      then ''Cost Savings Initiative''
      else ''Neutral'')"
  using arg_cong [OF roi_classified, of fst, of tasks tools ts c rm tcA rpmA smA]
  by (simp only: fst_conv if_distrib [of fst])

lemma roi_showNetBenefitTooltip:
  "showNetBenefitTooltip (calculateROI tasks tools ts c rm tcA rpmA smA) =
     (additionalMonthlyCost (calculateROI tasks tools ts c rm tcA rpmA smA) > 0
      \<and> monthlyUplift (calculateROI tasks tools ts c rm tcA rpmA smA)
          > additionalMonthlyCost (calculateROI tasks tools ts c rm tcA rpmA smA))"
  using arg_cong [OF roi_classified, of snd, of tasks tools ts c rm tcA rpmA smA]
  by (simp only: snd_conv if_distrib [of snd] if_True if_False simp_thms if_bool_eq_conj split: if_splits)

section \<open>The helpers as sums and case distinctions\<close>





lemma calculateTotalHours_rounded_exact:
  "calculateTotalHours_rounded (\<lambda>x. x) tasks = calculateTotalHours tasks"
  by (simp only: calculateTotalHours_rounded_def calculateTotalHours_def
        calculateEffectiveEfficiency_rounded_def calculateEffectiveEfficiency_def
        calculateHoursSavedPerRun_rounded_def calculateHoursSavedPerRun_def
        calculateFutureHoursPerRun_rounded_def calculateFutureHoursPerRun_def)

text \<open>The \<open>reduce\<close> of \<open>calculateTechCosts\<close> is the sum of the tools' monthly costs.\<close>

lemma calculateTechCosts_foldl:
  "foldl (\<lambda>sum tool.
       if billingModel tool = per_account
       then sum + or_zero (accountCostPerMonth tool)
       else sum + or_zero (licensePerUser tool) * teamSize) acc tools
   = acc + (\<Sum>tool\<leftarrow>tools.
        if billingModel tool = per_account then or_zero (accountCostPerMonth tool)
        else or_zero (licensePerUser tool) * teamSize)"
  by (induction tools arbitrary: acc) simp_all

lemma recurringPerMonth_sum:
  "recurringPerMonth (calculateTechCosts tools teamSize trainingCost) =
     (\<Sum>tool\<leftarrow>tools.
        if billingModel tool = per_account then or_zero (accountCostPerMonth tool)
        else or_zero (licensePerUser tool) * teamSize)"
  by (simp add: calculateTechCosts_def calculateTechCosts_foldl)

lemma or_zero_cases: "or_zero x = (case x of None \<Rightarrow> 0 | Some v \<Rightarrow> v)"
  by (simp add: or_zero_def truthy_def split: option.splits)

text \<open>The revenue lift that \<open>calculateROI\<close> uses, by the shape of the revenue model.\<close>

lemma calculateRevenueImpact_cases:
  "or_zero (calculateRevenueImpact revenueModel (Some runs)) =
     (case revenueModel of
        None \<Rightarrow> 0
      | Some m \<Rightarrow>
          (case revenuePerAsset m of
             None \<Rightarrow> 0
           | Some a \<Rightarrow>
               (case expectedIncrementalConversionLiftPct m of
                  None \<Rightarrow> 0
                | Some p \<Rightarrow> if a \<noteq> 0 \<and> p \<noteq> 0 then a * (p / 100) * runs else 0)))"
  by (simp add: calculateRevenueImpact_def or_zero_def truthy_def opt_chain_def default_arg_def
        split: option.splits)

text \<open>The shape of a three-way first-match decision.\<close>

lemma first_match_shape:
  "label = (if A then s1 else if C then s2 else s3) \<Longrightarrow> flag = A \<Longrightarrow>
   (if A then label = s1 \<and> flag
    else if C then label = s2 \<and> \<not> flag
    else label = s3 \<and> \<not> flag)"
  by simp


section \<open>The worked examples, evaluated\<close>

lemma example_totalHours:
  "calculateTotalHours (adjustedTasks 1 [exampleTask]) =
     \<lparr>TotalHours.current = 10, TotalHours.future = 8\<rparr>"
  by (simp add: adjustedTasks_def exampleTask_def calculateTotalHours_def
        calculateEffectiveEfficiency_def calculateHoursSavedPerRun_def
        calculateFutureHoursPerRun_def)

lemma example_hours:
  "totalHoursCurrent (calculateROI [exampleTask] tools ts c rm tcA (Some 10) (Some 1)) = 100"
  "totalHoursFuture (calculateROI [exampleTask] tools ts c rm tcA (Some 10) (Some 1)) = 80"
  by (simp_all add: roi_totalHoursCurrent roi_totalHoursFuture default_arg_Some
        example_totalHours)

lemma example_labor:
  "costCurrent (calculateROI [exampleTask] tools ts 75 rm tcA (Some 10) (Some 1)) = 7500"
  "costFuture (calculateROI [exampleTask] tools ts 75 rm tcA (Some 10) (Some 1)) = 6000"
  "monthlySavings (calculateROI [exampleTask] tools ts 75 rm tcA (Some 10) (Some 1)) = 1500"
  by (simp_all add: roi_monthlySavings roi_costCurrent roi_costFuture example_hours)

lemma example_recurring:
  "aiRecurringCostPerMonth (calculateROI tasks [] ts c rm tcA rpmA smA) = 0"
  "aiRecurringCostPerMonth (calculateROI tasks [exampleTool] ts c rm tcA rpmA smA) = 2000"
  by (simp_all add: roi_aiRecurring recurringPerMonth_sum exampleTool_def or_zero_cases)

lemma example_uplift:
  "monthlyUplift (calculateROI tasks tools ts c None tcA (Some 10) smA) = 0"
  "monthlyUplift (calculateROI tasks tools ts c (Some exampleRevenueModel) tcA (Some 10) smA)
     = 1000"
  by (simp_all add: roi_monthlyUplift calculateRevenueImpact_cases exampleRevenueModel_def
        default_arg_Some)

lemmas example_fields =
  example_hours example_labor example_recurring example_uplift roi_trainingCost default_arg_Some
  roi_monthlyNetBenefit roi_revenueLiftPerRun roi_additionalMonthlyCost roi_paybackMonths
  roi_roiPercentage roi_throughputMultiplier roi_pilot3MonthSavings roi_riskAdjustedSavings
  roi_classification roi_showNetBenefitTooltip js_div_def

section \<open>Evaluating the rounding\<close>

lemma normalise_numeral:
  "normalise (numeral k) m e =
     (if m < 2 ^ 52 then normalise (pred_numeral k) (m * 2) (e - 1)
      else if 2 ^ 53 \<le> m then normalise (pred_numeral k) (m / 2) (e + 1)
      else (m, e))"
  by (simp add: numeral_eq_Suc)

lemmas binary64_eval =
  binary64_def normalise_numeral round_half_even_def Let_def

lemmas rounded_eval =
  calculateTotalHours_rounded_def calculateEffectiveEfficiency_rounded_def
  calculateHoursSavedPerRun_rounded_def calculateFutureHoursPerRun_rounded_def
  hoursOnlyTask_def

text \<open>
  Known doubles: \<open>1\<close> is a double, \<open>0.1\<close> is not (the double written \<open>0.1\<close> is
  \<open>3602879701896397 / 2^55\<close>), \<open>0.1 + 0.2\<close> is the double \<open>0.30000000000000004\<close>, and
  \<open>2^53 + 1\<close>, half way between two doubles, goes to the even one.
\<close>

lemma binary64_known_values:
  "binary64 1 = 1"
  "binary64 (1 / 10) = 3602879701896397 / 2 ^ 55"
  "binary64 (binary64 (1 / 10) + binary64 (2 / 10)) = 1351079888211149 / 2 ^ 52"
  "binary64 (2 ^ 53 + 1) = 2 ^ 53"
  "binary64 (2 ^ 53 + 3) = 2 ^ 53 + 4"
  "binary64 (- (7 / 10)) = - binary64 (7 / 10)"
  by (simp_all add: binary64_eval)

text \<open>
  On the task of the worked example the rounded aggregator returns the exact totals:
  \<open>20 / 100\<close> is rounded, and \<open>10\<close> times that double rounds to \<open>2\<close>.
\<close>

lemma example_totalHours_rounded:
  "calculateTotalHours_rounded binary64 [exampleTask] =
     \<lparr>TotalHours.current = 10, TotalHours.future = 8\<rparr>"
proof -
  have eff: "calculateEffectiveEfficiency_rounded binary64 50 40 = 20"
    by (simp add: calculateEffectiveEfficiency_rounded_def binary64_eval)
  have saved: "calculateHoursSavedPerRun_rounded binary64 10 20 = 2"
    by (simp add: calculateHoursSavedPerRun_rounded_def binary64_eval)
  have fut: "calculateFutureHoursPerRun_rounded binary64 10 2 = 8"
    by (simp add: calculateFutureHoursPerRun_rounded_def binary64_eval)
  have sums: "binary64 10 = 10" "binary64 8 = 8"
    by (simp_all add: binary64_eval)
  show ?thesis
    by (simp add: calculateTotalHours_rounded_def exampleTask_def eff saved fut sums)
qed

section \<open>Scenario monotonicity\<close>






section \<open>The worked example\<close>

text \<open>
  Claim C2. On the single task with \<open>hoursPerRun = 10\<close>, \<open>aiCoveragePct = 50\<close> and
  \<open>efficiencyGainPct = 40\<close>, with no tools, no revenue model, any team size, hourly cost
  \<open>75\<close>, training cost \<open>5000\<close>, \<open>10\<close> runs per month and scenario multiplier \<open>1.0\<close>,
  \<open>calculateROI\<close> returns \<open>totalHoursCurrent = 100\<close>, \<open>totalHoursFuture = 80\<close>,
  \<open>costCurrent = 7500\<close>, \<open>costFuture = 6000\<close>, \<open>monthlySavings = 1500\<close>,
  \<open>aiRecurringCostPerMonth = 0\<close>, \<open>monthlyNetBenefit = 1500\<close>, \<open>paybackMonths = 5000 / 1500\<close>
  and the classification "Cost Savings Initiative"; the per-task values are an effective
  efficiency of \<open>20\<close>, \<open>2\<close> hours saved per run and \<open>8\<close> future hours per run.
\<close>

theorem worked_example:
  "let r = calculateROI
             [\<lparr>WorkflowTask.name = ''example'', hoursPerRun = 10, aiCoveragePct = 50,
               efficiencyGainPct = 40\<rparr>]
             [] teamSize 75 None (Some 5000) (Some 10) (Some 1)
   in totalHoursCurrent r = 100 \<and> totalHoursFuture r = 80 \<and>
      costCurrent r = 7500 \<and> costFuture r = 6000 \<and> monthlySavings r = 1500 \<and>
      aiRecurringCostPerMonth r = 0 \<and> monthlyNetBenefit r = 1500 \<and>
      paybackMonths r = Fin (5000 / 1500) \<and>
      classification r = ''Cost Savings Initiative'' \<and>
      calculateEffectiveEfficiency 50 40 = 20 \<and>
      calculateHoursSavedPerRun 10 20 = 2 \<and>
      calculateFutureHoursPerRun 10 2 = 8"
  unfolding Let_def exampleTask_def [symmetric]
  by (simp add: example_fields calculateEffectiveEfficiency_def calculateHoursSavedPerRun_def
        calculateFutureHoursPerRun_def)

section \<open>Savings, payback and classification\<close>



text \<open>
  Claim C4. For every input to \<open>calculateROI\<close>, \<open>paybackMonths\<close> is
  \<open>trainingCostOneTime / monthlyNetBenefit\<close> when \<open>monthlyNetBenefit > 0\<close> and \<open>+infinity\<close>
  when \<open>monthlyNetBenefit \<le> 0\<close>; no division by zero takes place (the result is never
  \<open>NaN\<close> and never \<open>-infinity\<close>) and, the training cost being non-negative, it is never
  negative.
\<close>

theorem paybackMonths_guarded:
  "let r = calculateROI tasks recommendedTools teamSize averageHourlyCost revenueModel
             trainingCost runsPerMonth scenarioMultiplier
   in (monthlyNetBenefit r > 0 \<longrightarrow>
         paybackMonths r = Fin (trainingCostOneTime r / monthlyNetBenefit r)) \<and>
      (monthlyNetBenefit r \<le> 0 \<longrightarrow> paybackMonths r = PosInf) \<and>
      paybackMonths r \<noteq> NaN \<and> paybackMonths r \<noteq> NegInf \<and>
      (0 \<le> trainingCostOneTime r \<longrightarrow> (\<forall>p. paybackMonths r = Fin p \<longrightarrow> 0 \<le> p))"
  unfolding Let_def by (auto simp add: roi_paybackMonths js_div_def)

theorem paybackMonths_guarded_witness:
  "monthlyNetBenefit (calculateROI [exampleTask] [] 5 75 None (Some 5000) (Some 10) (Some 1)) > 0
   \<and> paybackMonths (calculateROI [exampleTask] [] 5 75 None (Some 5000) (Some 10) (Some 1))
       = Fin (10 / 3)
   \<and> 0 \<le> trainingCostOneTime
             (calculateROI [exampleTask] [] 5 75 None (Some 5000) (Some 10) (Some 1))
   \<and> monthlyNetBenefit
        (calculateROI [exampleTask] [exampleTool] 5 75 None (Some 5000) (Some 10) (Some 1)) \<le> 0
   \<and> paybackMonths
        (calculateROI [exampleTask] [exampleTool] 5 75 None (Some 5000) (Some 10) (Some 1))
       = PosInf"
  using paybackMonths_guarded [of "[exampleTask]" "[]" 5 75 None "Some 5000" "Some 10" "Some 1"]
    paybackMonths_guarded
      [of "[exampleTask]" "[exampleTool]" 5 75 None "Some 5000" "Some 10" "Some 1"]
  by (simp add: Let_def example_labor example_recurring example_uplift roi_trainingCost
        default_arg_Some roi_monthlyNetBenefit)

text \<open>
  Claim C5. The classification is decided by the first match: with
  \<open>additionalMonthlyCost = max (aiRecurringCostPerMonth - monthlySavings) 0\<close>, if it is
  positive and the monthly revenue lift exceeds it the label is "AI Performance Investment"
  and \<open>showNetBenefitTooltip\<close> is set; otherwise, if \<open>monthlySavings\<close> exceeds
  \<open>aiRecurringCostPerMonth\<close> the label is "Cost Savings Initiative"; otherwise it is
  "Neutral"; the flag is set in the first case only.
\<close>

theorem classification_first_match:
  "let r = calculateROI tasks recommendedTools teamSize averageHourlyCost revenueModel
             trainingCost runsPerMonth scenarioMultiplier;
       additional = max (aiRecurringCostPerMonth r - monthlySavings r) 0
   in additionalMonthlyCost r = additional \<and>
      (if additional > 0 \<and> revenueLiftPerRun r > additional
       then classification r = ''AI Performance Investment'' \<and> showNetBenefitTooltip r
       else if monthlySavings r > aiRecurringCostPerMonth r
       then classification r = ''Cost Savings Initiative'' \<and> \<not> showNetBenefitTooltip r
       else classification r = ''Neutral'' \<and> \<not> showNetBenefitTooltip r)"
proof -
  let ?r = "calculateROI tasks recommendedTools teamSize averageHourlyCost revenueModel
              trainingCost runsPerMonth scenarioMultiplier"
  let ?additional = "max (aiRecurringCostPerMonth ?r - monthlySavings ?r) 0"
  have add: "additionalMonthlyCost ?r = ?additional"
    by (rule roi_additionalMonthlyCost)
  have label: "classification ?r =
      (if ?additional > 0 \<and> revenueLiftPerRun ?r > ?additional
       then ''AI Performance Investment''
       else if monthlySavings ?r > aiRecurringCostPerMonth ?r
       then ''Cost Savings Initiative'' else ''Neutral'')"
    by (simp only: roi_classification roi_additionalMonthlyCost roi_revenueLiftPerRun)
  have flag: "showNetBenefitTooltip ?r =
      (?additional > 0 \<and> revenueLiftPerRun ?r > ?additional)"
    by (simp only: roi_showNetBenefitTooltip roi_additionalMonthlyCost roi_revenueLiftPerRun)
  show ?thesis
    unfolding Let_def
    by (rule conjI [OF add first_match_shape [OF label flag]])
qed

theorem classification_first_match_witness:
  "classification
     (calculateROI [exampleTask] [exampleTool] 5 75 (Some exampleRevenueModel)
        (Some 5000) (Some 10) (Some 1)) = ''AI Performance Investment''
   \<and> showNetBenefitTooltip
     (calculateROI [exampleTask] [exampleTool] 5 75 (Some exampleRevenueModel)
        (Some 5000) (Some 10) (Some 1))
   \<and> classification
     (calculateROI [exampleTask] [] 5 75 None (Some 5000) (Some 10) (Some 1))
       = ''Cost Savings Initiative''
   \<and> classification
     (calculateROI [exampleTask] [exampleTool] 5 75 None (Some 5000) (Some 10) (Some 1))
       = ''Neutral''"
  using classification_first_match
      [of "[exampleTask]" "[exampleTool]" 5 75 "Some exampleRevenueModel" "Some 5000" "Some 10"
          "Some 1"]
    classification_first_match
      [of "[exampleTask]" "[]" 5 75 None "Some 5000" "Some 10" "Some 1"]
    classification_first_match
      [of "[exampleTask]" "[exampleTool]" 5 75 None "Some 5000" "Some 10" "Some 1"]
  by (simp add: Let_def example_labor example_recurring example_uplift roi_revenueLiftPerRun)

section \<open>Revenue uplift\<close>

text \<open>
  Claim C6. The revenue uplift rests on a truthiness check: for every input, the monthly
  revenue lift that \<open>calculateROI\<close> uses (returned as \<open>revenueLiftPerRun\<close> and as
  \<open>monthlyUplift\<close>, and added into \<open>monthlyNetBenefit\<close>) is
  \<open>revenuePerAsset * (expectedIncrementalConversionLiftPct / 100) * max runsPerMonth 0\<close>
  when the revenue model is supplied and both fields are present and non-zero, and \<open>0\<close> in
  every other case, also when the model is present and one of the fields is \<open>0\<close>.
\<close>

theorem revenue_uplift_truthiness:
  "let r = calculateROI tasks recommendedTools teamSize averageHourlyCost revenueModel
             trainingCost runsPerMonth scenarioMultiplier;
       runs = default_arg 10 runsPerMonth;
       lift =
         (case revenueModel of
            None \<Rightarrow> 0
          | Some m \<Rightarrow>
              (case revenuePerAsset m of
                 None \<Rightarrow> 0
               | Some a \<Rightarrow>
                   (case expectedIncrementalConversionLiftPct m of
                      None \<Rightarrow> 0
                    | Some p \<Rightarrow>
                        if a \<noteq> 0 \<and> p \<noteq> 0 then a * (p / 100) * max runs 0 else 0)))
   in revenueLiftPerRun r = lift \<and> monthlyUplift r = lift \<and>
      monthlyNetBenefit r = monthlySavings r + lift - aiRecurringCostPerMonth r"
  unfolding Let_def
  by (simp only: roi_revenueLiftPerRun roi_monthlyNetBenefit roi_monthlyUplift
        calculateRevenueImpact_cases simp_thms)

theorem revenue_uplift_truthiness_witness:
  "revenueLiftPerRun
     (calculateROI [exampleTask] [] 5 75 (Some exampleRevenueModel) None (Some 10) None) = 1000 \<and>
   revenueLiftPerRun
     (calculateROI [exampleTask] [] 5 75 (Some (exampleRevenueModel\<lparr>revenuePerAsset := Some 0\<rparr>))
        None (Some 10) None) = 0 \<and>
   revenueLiftPerRun
     (calculateROI [exampleTask] [] 5 75
        (Some (exampleRevenueModel\<lparr>expectedIncrementalConversionLiftPct := None\<rparr>))
        None (Some 10) None) = 0 \<and>
   revenueLiftPerRun (calculateROI [exampleTask] [] 5 75 None None (Some 10) None) = 0"
  using revenue_uplift_truthiness
      [of "[exampleTask]" "[]" 5 75 "Some exampleRevenueModel" None "Some 10" None]
    revenue_uplift_truthiness
      [of "[exampleTask]" "[]" 5 75 "Some (exampleRevenueModel\<lparr>revenuePerAsset := Some 0\<rparr>)"
          None "Some 10" None]
    revenue_uplift_truthiness
      [of "[exampleTask]" "[]" 5 75
          "Some (exampleRevenueModel\<lparr>expectedIncrementalConversionLiftPct := None\<rparr>)"
          None "Some 10" None]
    revenue_uplift_truthiness [of "[exampleTask]" "[]" 5 75 None None "Some 10" None]
  by (simp add: Let_def exampleRevenueModel_def default_arg_Some)

section \<open>Order of the tasks\<close>

text \<open>
  With every addition rounded to a double, the running sums of \<open>calculateTotalHours\<close>
  depend on the order of the tasks. Three tasks of \<open>0.7\<close>, \<open>0.8\<close> and \<open>0.9\<close> hours (the
  doubles so written) sum to \<open>2.4\<close> in this order and to \<open>2.4000000000000004\<close> in the reverse
  order; \<open>2^53\<close>, \<open>1\<close> and \<open>1\<close> hours sum to \<open>2^53\<close> in this order, each \<open>1\<close> being lost to
  the rounding, and to \<open>2^53 + 2\<close> when the two small tasks come first.
\<close>

lemma calculateTotalHours_rounded_large_first:
  "calculateTotalHours_rounded binary64 [hoursOnlyTask (2 ^ 53), hoursOnlyTask 1, hoursOnlyTask 1]
   = \<lparr>TotalHours.current = 2 ^ 53, TotalHours.future = 2 ^ 53\<rparr>"
  "calculateTotalHours_rounded binary64 [hoursOnlyTask 1, hoursOnlyTask 1, hoursOnlyTask (2 ^ 53)]
   = \<lparr>TotalHours.current = 2 ^ 53 + 2, TotalHours.future = 2 ^ 53 + 2\<rparr>"
  by (simp_all add: rounded_eval binary64_eval)




section \<open>Totality on the documented domain\<close>



section \<open>Labor costs and technology costs\<close>

text \<open>
  Claim C9. \<open>calculateLaborCosts\<close> applies no floor: for every \<open>totalHoursCurrent\<close>,
  \<open>totalHoursFuture\<close> and \<open>averageHourlyCost\<close> its \<open>savings\<close> field is
  \<open>totalHoursCurrent * averageHourlyCost - totalHoursFuture * averageHourlyCost\<close>, which is
  negative when \<open>totalHoursFuture > totalHoursCurrent\<close> and \<open>averageHourlyCost > 0\<close>; the
  floor at \<open>0\<close> is applied afterwards, inside \<open>calculateROI\<close>.
\<close>

theorem calculateLaborCosts_no_floor:
  "savings (calculateLaborCosts hoursCurrent hoursFuture hourlyCost) =
     hoursCurrent * hourlyCost - hoursFuture * hourlyCost \<and>
   (hoursCurrent < hoursFuture \<and> 0 < hourlyCost \<longrightarrow>
      savings (calculateLaborCosts hoursCurrent hoursFuture hourlyCost) < 0) \<and>
   (let r = calculateROI tasks recommendedTools teamSize averageHourlyCost revenueModel
              trainingCost runsPerMonth scenarioMultiplier
    in monthlySavings r =
         max (savings (calculateLaborCosts (totalHoursCurrent r) (totalHoursFuture r)
                averageHourlyCost)) 0)"
proof -
  have eq: "savings (calculateLaborCosts a b c) = a * c - b * c" for a b c
    by (simp add: calculateLaborCosts_def Let_def)
  have neg: "a < b \<and> 0 < c \<longrightarrow> a * c - b * c < 0" for a b c :: real
    by simp
  have floor: "monthlySavings r = max (totalHoursCurrent r * averageHourlyCost
                  - totalHoursFuture r * averageHourlyCost) 0"
    if "r = calculateROI tasks recommendedTools teamSize averageHourlyCost revenueModel
              trainingCost runsPerMonth scenarioMultiplier" for r
    unfolding that by (simp only: roi_monthlySavings roi_costCurrent roi_costFuture)
  show ?thesis
    unfolding Let_def eq using neg floor by blast
qed

theorem calculateLaborCosts_no_floor_witness:
  "(1::real) < 2 \<and> (0::real) < 3 \<and> savings (calculateLaborCosts 1 2 3) = - 3"
  using calculateLaborCosts_no_floor [of 1 2 3 "[]" "[]" 1 3 None None None None]
  by (simp add: calculateLaborCosts_def Let_def)

text \<open>
  Claim C10. For a tool list in which every tool is billed per account, the recurring monthly
  cost that \<open>calculateTechCosts\<close> returns is the same for any two team sizes: it is the sum of
  the tools' \<open>accountCostPerMonth\<close>, an absent one counting \<open>0\<close>, whatever their
  \<open>licensePerUser\<close> field holds.
\<close>

theorem per_account_teamSize_noninterference:
  assumes "\<forall>tool \<in> set recommendedTools. billingModel tool = per_account"
  shows "recurringPerMonth (calculateTechCosts recommendedTools teamSize1 trainingCost1) =
           recurringPerMonth (calculateTechCosts recommendedTools teamSize2 trainingCost2) \<and>
         recurringPerMonth (calculateTechCosts recommendedTools teamSize1 trainingCost1) =
           (\<Sum>tool\<leftarrow>recommendedTools.
               case accountCostPerMonth tool of None \<Rightarrow> 0 | Some cost \<Rightarrow> cost)"
proof -
  have "recurringPerMonth (calculateTechCosts recommendedTools teamSize trainingCost) =
          (\<Sum>tool\<leftarrow>recommendedTools.
              case accountCostPerMonth tool of None \<Rightarrow> 0 | Some cost \<Rightarrow> cost)"
    for teamSize trainingCost
    unfolding recurringPerMonth_sum
    by (rule arg_cong [where f = sum_list], rule map_cong [OF refl])
       (use assms in \<open>simp add: or_zero_cases\<close>)
  then show ?thesis by simp
qed

theorem per_account_teamSize_noninterference_witness:
  "billingModel exampleTool = per_account \<and>
   billingModel (exampleTool\<lparr>licensePerUser := Some 99, accountCostPerMonth := None\<rparr>)
     = per_account \<and>
   recurringPerMonth
     (calculateTechCosts
        [exampleTool, exampleTool\<lparr>licensePerUser := Some 99, accountCostPerMonth := None\<rparr>]
        5 None) = 2000 \<and>
   recurringPerMonth
     (calculateTechCosts
        [exampleTool, exampleTool\<lparr>licensePerUser := Some 99, accountCostPerMonth := None\<rparr>]
        50 None) = 2000"
proof -
  have h: "\<forall>tool \<in> set [exampleTool, exampleTool\<lparr>licensePerUser := Some 99,
                                           accountCostPerMonth := None\<rparr>].
       billingModel tool = per_account"
    by (simp add: exampleTool_def)
  show ?thesis
    using h per_account_teamSize_noninterference [OF h, of 5 None 50 None]
    by (simp add: exampleTool_def)
qed

end
